theory Spec2Isabelle
  imports Main "HOL-Library.Sublist"
begin

section \<open>Strings\<close>

text \<open>
  A Python \<open>str\<close> is modelled as a \<open>string\<close>, one \<open>char\<close> per code point; the model
  covers the code points 0 to 255 (Latin-1), and \<open>length\<close> is Python's \<open>len\<close>.
  The substring test \<open>c in s\<close> is \<open>sublist c s\<close> (contiguous occurrence).
\<close>

text \<open>\<open>str.lower()\<close> on one code point below 256: A to Z, and the Latin-1 capitals
  (U+00C0 to U+00DE without the multiplication sign U+00D7), move up by 32.\<close>

definition lower_char :: "char \<Rightarrow> char" where
  "lower_char c =
     (let n = (of_char c :: nat) in
      if (65 \<le> n \<and> n \<le> 90) \<or> (192 \<le> n \<and> n \<le> 222 \<and> n \<noteq> 215)
      then char_of (n + 32) else c)"

definition lower :: "string \<Rightarrow> string" where
  "lower s = map lower_char s"

text \<open>\<open>str.isspace()\<close> on one code point below 256: tab to carriage return,
  the separators U+001C to U+001F, space, U+0085 and U+00A0.\<close>

definition is_space :: "char \<Rightarrow> bool" where
  "is_space c =
     (let n = (of_char c :: nat) in
      (9 \<le> n \<and> n \<le> 13) \<or> (28 \<le> n \<and> n \<le> 32) \<or> n = 133 \<or> n = 160)"

text \<open>\<open>str.strip()\<close> without argument: whitespace removed at both ends.\<close>

definition strip :: "string \<Rightarrow> string" where
  "strip s = rev (dropWhile is_space (rev (dropWhile is_space s)))"

text \<open>\<open>sep.join(xs)\<close>.\<close>

fun join :: "string \<Rightarrow> string list \<Rightarrow> string" where
  "join sep [] = []"
| "join sep [x] = x"
| "join sep (x # y # ys) = x @ sep @ join sep (y # ys)"

definition newline :: string where
  "newline = [CHR 0x0A]"

section \<open>Heuristic classifiers\<close>

text \<open>\<open>sum(1 for c in cues if c in text.lower())\<close>.\<close>

definition cue_count :: "string list \<Rightarrow> string \<Rightarrow> nat" where
  "cue_count cues text = length (filter (\<lambda>c. sublist c (lower text)) cues)"

definition cv_cues :: "string list" where
  "cv_cues = [''experience'', ''education'', ''skills'', ''projects'', ''summary'',
              ''work'', ''certification'']"

definition looks_like_cv :: "string \<Rightarrow> bool" where
  "looks_like_cv text =
     (if text = [] \<or> length text < 500 then False
      else cue_count cv_cues text \<ge> 2)"

definition jd_cues :: "string list" where
  "jd_cues = [''responsibilities'', ''requirements'', ''qualifications'', ''role'',
              ''about the role'', ''what you'' @ [CHR 0x27] @ ''ll do'']"

definition looks_like_job_description :: "string \<Rightarrow> bool" where
  "looks_like_job_description text =
     (if text = [] \<or> length text < 500 then False
      else cue_count jd_cues text \<ge> 1)"

section \<open>URL plausibility check\<close>

text \<open>
  \<open>re.match(r"^https?://", s)\<close>: the pattern is anchored at the start and has no
  flag, so it matches exactly the strings that begin with \<open>http://\<close> or \<open>https://\<close>,
  in lower case.
\<close>

definition scheme_match :: "string \<Rightarrow> bool" where
  "scheme_match s = (prefix ''http://'' s \<or> prefix ''https://'' s)"

definition hints :: "string list" where
  "hints = [''/jobs'', ''/careers'', ''/job/'', ''/positions'', ''/openings'', ''/positions/'']"

text \<open>The argument may be \<open>None\<close>; \<open>url or ""\<close> turns \<open>None\<close> into the empty string,
  which the scheme test rejects before \<open>url.lower()\<close> is reached.\<close>

definition is_probable_job_url :: "string option \<Rightarrow> bool" where
  "is_probable_job_url url =
     (if \<not> scheme_match (case url of None \<Rightarrow> [] | Some u \<Rightarrow> u) then False
      else (case url of None \<Rightarrow> False
            | Some u \<Rightarrow> list_ex (\<lambda>h. sublist h (lower u)) hints))"

section \<open>Prompt assembler\<close>

text \<open>The f-string of \<open>build_user_prompt\<close>, piece by piece.\<close>

definition build_user_prompt :: "string \<Rightarrow> string \<Rightarrow> string \<Rightarrow> string" where
  "build_user_prompt job_text cv_text url =
     newline @ ''Job Posting:'' @ newline @ job_text @ newline @
     newline @ ''CV:'' @ newline @ cv_text @ newline @
     newline @ ''Url:'' @ newline @ url @ newline"

section \<open>Exceptions\<close>

text \<open>A raised exception, with the message that \<open>str(e)\<close> gives. A call that may raise
  returns \<open>Inl\<close> of the exception or \<open>Inr\<close> of its value.\<close>

datatype exn = Exn string

section \<open>PDF text extractor\<close>

text \<open>
  One page of the reader, as \<open>page.extract_text()\<close> answers on it: it raises (\<open>Inl\<close>),
  returns \<open>None\<close>, or returns a string.
\<close>

type_synonym page = "exn + string option"

text \<open>The loop over \<open>reader.pages\<close>, with \<open>chunks\<close> as accumulator: a page whose
  extraction raises is passed over (\<open>except Exception: pass\<close>), any other page appends
  \<open>page.extract_text() or ""\<close>.\<close>

fun extract_pages :: "page list \<Rightarrow> string list \<Rightarrow> string list" where
  "extract_pages [] chunks = chunks"
| "extract_pages (Inl e # ps) chunks = extract_pages ps chunks"
| "extract_pages (Inr None # ps) chunks = extract_pages ps (chunks @ [[]])"
| "extract_pages (Inr (Some t) # ps) chunks = extract_pages ps (chunks @ [t])"

text \<open>\<open>pdf_open path\<close> stands for \<open>open(path, "rb")\<close> followed by \<open>PyPDF2.PdfReader(f)\<close>
  and the reading of \<open>reader.pages\<close>: it raises, or gives the pages in document order.\<close>

definition extract_pdf_text :: "(string \<Rightarrow> exn + page list) \<Rightarrow> string \<Rightarrow> exn + string" where
  "extract_pdf_text pdf_open path =
     (case pdf_open path of
        Inl e \<Rightarrow> Inl e
      | Inr pages \<Rightarrow> Inr (strip (join newline (extract_pages pages []))))"

text \<open>The text a page stands for once its extraction has returned.\<close>

fun page_text :: "page \<Rightarrow> string" where
  "page_text (Inr (Some t)) = t"
| "page_text _ = []"

fun page_faults :: "page \<Rightarrow> bool" where
  "page_faults (Inl e) = True"
| "page_faults (Inr t) = False"

text \<open>The specification's reading of the result, used only for comparison with the code:
  one entry per page in document order, the empty string for a faulting page.\<close>

definition one_entry_per_page :: "page list \<Rightarrow> string" where
  "one_entry_per_page pages = strip (join newline (map page_text pages))"

section \<open>HTML text extractor\<close>

text \<open>
  The tree that \<open>BeautifulSoup(resp.content, "html.parser")\<close> builds. \<open>Text\<close> is a string
  that \<open>get_text\<close> collects (a \<open>NavigableString\<close> or \<open>CData\<close>); \<open>Hidden\<close> is a string
  it skips (a comment, a declaration, a processing instruction); \<open>Elem\<close> is a tag with its
  name and its children in document order.
\<close>

datatype node = Text string | Hidden string | Elem string "node list"

text \<open>\<open>soup.title\<close>, \<open>soup.body\<close>: the first tag of that name in document order.\<close>

fun find_tag :: "string \<Rightarrow> node list \<Rightarrow> node option" where
  "find_tag name [] = None"
| "find_tag name (Text s # ns) = find_tag name ns"
| "find_tag name (Hidden s # ns) = find_tag name ns"
| "find_tag name (Elem t cs # ns) =
     (if t = name then Some (Elem t cs)
      else (case find_tag name cs of
              Some n \<Rightarrow> Some n
            | None \<Rightarrow> find_tag name ns))"

text \<open>\<open>tag.string\<close>: the only child if it is a string, the \<open>.string\<close> of the only child
  if it is a tag, \<open>None\<close> when the tag has no child or several.\<close>

fun node_string :: "node \<Rightarrow> string option" where
  "node_string (Text s) = Some s"
| "node_string (Hidden s) = Some s"
| "node_string (Elem t [c]) = node_string c"
| "node_string (Elem t cs) = None"

definition irrelevant :: "string list" where
  "irrelevant = [''script'', ''style'', ''img'', ''input'', ''nav'', ''footer'', ''header'',
                 ''noscript'', ''svg'', ''button'', ''form'']"

text \<open>
  \<open>for irrelevant in soup.body([...]): irrelevant.decompose()\<close>: calling a tag is
  \<open>find_all\<close>, which finds every descendant tag whose name is in the list, and
  \<open>decompose\<close> takes the tag and all below it out of the tree. What is left of the
  children of the body is computed here.
\<close>

fun decompose_all :: "string list \<Rightarrow> node list \<Rightarrow> node list" where
  "decompose_all names [] = []"
| "decompose_all names (Text s # ns) = Text s # decompose_all names ns"
| "decompose_all names (Hidden s # ns) = Hidden s # decompose_all names ns"
| "decompose_all names (Elem t cs # ns) =
     (if t \<in> set names then decompose_all names ns
      else Elem t (decompose_all names cs) # decompose_all names ns)"

text \<open>The strings below a tag, in document order, as \<open>get_text\<close> walks them.\<close>

fun all_strings :: "node list \<Rightarrow> string list" where
  "all_strings [] = []"
| "all_strings (Text s # ns) = s # all_strings ns"
| "all_strings (Hidden s # ns) = all_strings ns"
| "all_strings (Elem t cs # ns) = all_strings cs @ all_strings ns"

text \<open>\<open>get_text(separator="\n", strip=True)\<close>: every string is stripped, a string that
  is empty after that is left out, the rest is joined with newlines.\<close>

definition get_text :: "node list \<Rightarrow> string" where
  "get_text ns = join newline (filter (\<lambda>s. s \<noteq> []) (map strip (all_strings ns)))"

definition no_title :: string where
  "no_title = ''No title found''"

text \<open>\<open>http_get url\<close> stands for \<open>requests.get\<close>, \<open>raise_for_status\<close> and the parsing of
  the response: it raises, or gives the top-level nodes of the document.\<close>

definition fetch_job_text ::
  "(string \<Rightarrow> exn + node list) \<Rightarrow> string \<Rightarrow> exn + (string \<times> string)" where
  "fetch_job_text http_get url =
     (case http_get url of
        Inl e \<Rightarrow> Inl e
      | Inr soup \<Rightarrow>
          (let title = (case find_tag ''title'' soup of
                          None \<Rightarrow> no_title
                        | Some t \<Rightarrow>
                            (case node_string t of
                               None \<Rightarrow> no_title
                             | Some s \<Rightarrow> if s = [] then no_title else strip s));
               text = (case find_tag ''body'' soup of
                         Some (Elem t cs) \<Rightarrow> get_text (decompose_all irrelevant cs)
                       | _ \<Rightarrow> get_text soup)
           in Inr (title, text)))"

text \<open>The specification's reading of the body text, used only for comparison with the
  code: every string of the body together with the names of the tags that enclose it
  inside the body, outermost first; a string is visible when none of them is in the list.\<close>

fun strings_with_path :: "string list \<Rightarrow> node list \<Rightarrow> (string list \<times> string) list" where
  "strings_with_path path [] = []"
| "strings_with_path path (Text s # ns) = (path, s) # strings_with_path path ns"
| "strings_with_path path (Hidden s # ns) = strings_with_path path ns"
| "strings_with_path path (Elem t cs # ns) =
     strings_with_path (path @ [t]) cs @ strings_with_path path ns"

definition visible_strings :: "string list \<Rightarrow> node list \<Rightarrow> string list" where
  "visible_strings names ns =
     map snd (filter (\<lambda>(path, s). \<forall>t \<in> set path. t \<notin> set names) (strings_with_path [] ns))"

text \<open>The names of all tags in a forest.\<close>

fun tag_names :: "node list \<Rightarrow> string list" where
  "tag_names [] = []"
| "tag_names (Text s # ns) = tag_names ns"
| "tag_names (Hidden s # ns) = tag_names ns"
| "tag_names (Elem t cs # ns) = t # tag_names cs @ tag_names ns"

section \<open>The program\<close>

definition SYSTEM_PROMPT :: string where
  "SYSTEM_PROMPT =
     [] @ newline @
     ''You are an assistant who analyzes user'' @ [CHR 0x27] @ ''s CV against the job description '' @ newline @
     ''and provide a short summary if the user is fit for this job. If the user is fit for the job, '' @ newline @
     ''write a cover letter for the user to apply for the job. Keep the cover letter professional, short, '' @ newline @
     ''and formal.'' @ newline @
     [] @ newline @
     ''Important things to notice before analyzing CV:'' @ newline @
     ''1. Always check if the CV is actually a CV or just random text'' @ newline @
     ''2. Check if the job description fetched from the website is the job description or not'' @ newline @
     ''   and ignore text related to navigation'' @ newline @
     ''3. Also check the link of the job posting, if it actually resembles a job posting or is just a fake website'' @ newline @
     ''4. If any one of these two checks fails, do not analyze the CV against the job description and give an'' @ newline @
     ''   appropriate response as you think'' @ newline @
     ''5. Always respond in Markdown.'' @ newline @
     []"

definition generic :: string where
  "generic =
     ''It looks like either the job posting URL/text or the CV content may be invalid or incomplete.'' @ newline @
     [] @ newline @
     ''Please make sure you: '' @ newline @
     ''- Paste a real job posting URL (from a careers site or job board)'' @ newline @
     ''- Provide a proper CV PDF (not random text or a scan without selectable text)'' @ newline @
     [] @ newline @
     ''Once both are valid, I can analyze the CV against the job description and draft a short cover letter.''"

text \<open>What a run finds outside the program: the environment variable, the file system,
  the network, the PDF reader and the chat-completion service.\<close>

record world =
  OPENAI_API_KEY :: "string option"
  path_exists :: "string \<Rightarrow> bool"
  http_get :: "string \<Rightarrow> exn + node list"
  pdf_open :: "string \<Rightarrow> exn + page list"
  chat_create :: "string \<Rightarrow> (string \<times> string) list \<Rightarrow> exn + string"

text \<open>The parsed command line.\<close>

record args =
  job_url :: string
  cv :: string
  model :: string

text \<open>The outbound calls of a run, in the order they are made.\<close>

datatype call =
    Fetch string
  | ReadPdf string
  | Chat string "(string \<times> string) list"

text \<open>What a run leaves behind: the exit status (0 when \<open>main\<close> returns), the
  arguments of the \<open>print\<close> calls on standard output and on standard error, and the
  outbound calls made.\<close>

record outcome =
  exit_code :: int
  stdout :: "string list"
  stderr :: "string list"
  calls :: "call list"

definition notice :: string where
  "notice = ''[notice] The provided URL doesn'' @ [CHR 0x27] @
            ''t look like a typical job posting. The assistant may decline to analyze.''"

definition main :: "world \<Rightarrow> args \<Rightarrow> outcome" where
  "main w a =
     (if OPENAI_API_KEY w = None \<or> OPENAI_API_KEY w = Some [] then
        \<lparr>exit_code = 2, stdout = [],
         stderr = [''[error] OPENAI_API_KEY not set. Put it in a .env or environment.''],
         calls = []\<rparr>
      else
        let out = (if \<not> is_probable_job_url (Some (job_url a)) then [notice] else []) in
        if \<not> path_exists w (cv a) then
          \<lparr>exit_code = 2, stdout = out,
           stderr = [''[error] CV file not found: '' @ cv a], calls = []\<rparr>
        else
          (case fetch_job_text (http_get w) (job_url a) of
             Inl (Exn e) \<Rightarrow>
               \<lparr>exit_code = 1, stdout = out,
                stderr = [''[error] Failed to fetch job posting: '' @ e],
                calls = [Fetch (job_url a)]\<rparr>
           | Inr (job_title, job_text) \<Rightarrow>
               (case extract_pdf_text (pdf_open w) (cv a) of
                  Inl (Exn e) \<Rightarrow>
                    \<lparr>exit_code = 1, stdout = out,
                     stderr = [''[error] Failed to extract CV: '' @ e],
                     calls = [Fetch (job_url a), ReadPdf (cv a)]\<rparr>
                | Inr cv_text \<Rightarrow>
                    if \<not> looks_like_job_description job_text \<or> \<not> looks_like_cv cv_text then
                      \<lparr>exit_code = 0, stdout = out @ [generic], stderr = [],
                       calls = [Fetch (job_url a), ReadPdf (cv a)]\<rparr>
                    else
                      let user_prompt = build_user_prompt job_text cv_text (job_url a);
                          messages = [(''system'', SYSTEM_PROMPT), (''user'', user_prompt)]
                      in (case chat_create w (model a) messages of
                            Inl (Exn e) \<Rightarrow>
                              \<lparr>exit_code = 1, stdout = out,
                               stderr = [''[error] OpenAI API error: '' @ e],
                               calls = [Fetch (job_url a), ReadPdf (cv a),
                                        Chat (model a) messages]\<rparr>
                          | Inr content \<Rightarrow>
                              \<lparr>exit_code = 0, stdout = out @ [content], stderr = [],
                               calls = [Fetch (job_url a), ReadPdf (cv a),
                                        Chat (model a) messages]\<rparr>))))"

section \<open>Example inputs\<close>

text \<open>A reader of three pages whose second page faults.\<close>

definition corrupt_middle :: "string \<Rightarrow> exn + page list" where
  "corrupt_middle path =
     Inr [Inr (Some ''first page''), Inl (Exn ''corrupt stream''), Inr (Some ''third page'')]"

text \<open>A page with a navigation block and a content block.\<close>

definition nav_page :: "node list" where
  "nav_page =
     [Elem ''html''
        [Elem ''head'' [Elem ''title'' [Text ''Careers'']],
         Elem ''body''
           [Elem ''nav'' [Text ''Home About''],
            Elem ''div'' [Text ''Job Description Here'']]]]"

definition nav_site :: "string \<Rightarrow> exn + node list" where
  "nav_site url = Inr nav_page"

text \<open>A job description of 500 characters, a CV of 50 characters and a CV of
  500 characters, and the services that deliver them or fail.\<close>

definition good_jd :: string where
  "good_jd = ''Responsibilities and requirements of the role'' @ replicate 455 CHR ''.''"

definition short_cv :: string where
  "short_cv = ''experience education skills projects summary work.''"

definition good_cv :: string where
  "good_cv = ''Work experience and skills'' @ replicate 474 CHR ''.''"

definition jd_site :: "string \<Rightarrow> exn + node list" where
  "jd_site url = Inr [Elem ''html'' [Elem ''body'' [Elem ''div'' [Text good_jd]]]]"

definition site_down :: "string \<Rightarrow> exn + node list" where
  "site_down url = Inl (Exn ''404 Client Error'')"

definition short_cv_file :: "string \<Rightarrow> exn + page list" where
  "short_cv_file path = Inr [Inr (Some short_cv)]"

definition good_cv_file :: "string \<Rightarrow> exn + page list" where
  "good_cv_file path = Inr [Inr (Some good_cv)]"

definition broken_pdf :: "string \<Rightarrow> exn + page list" where
  "broken_pdf path = Inl (Exn ''EOF marker not found'')"

definition every_path :: "string \<Rightarrow> bool" where
  "every_path path = True"

definition no_path :: "string \<Rightarrow> bool" where
  "no_path path = False"

definition chat_answers :: "string \<Rightarrow> (string \<times> string) list \<Rightarrow> exn + string" where
  "chat_answers m messages = Inr ''# Fit summary''"

definition chat_fails :: "string \<Rightarrow> (string \<times> string) list \<Rightarrow> exn + string" where
  "chat_fails m messages = Inl (Exn ''Request timed out.'')"

definition good_world :: world where
  "good_world =
     \<lparr>OPENAI_API_KEY = Some ''sk-test'', path_exists = every_path, http_get = jd_site,
      pdf_open = good_cv_file, chat_create = chat_answers\<rparr>"

definition some_args :: args where
  "some_args =
     \<lparr>job_url = ''https://company.com/careers/123'', cv = ''cv.pdf'',
      model = ''gpt-4o-mini''\<rparr>"

section \<open>Classifier properties\<close>

text \<open>
  Claim C2. A text shorter than 500 characters (the empty text included) is rejected
  by both classifiers, whatever cue words it contains.
\<close>

theorem C2_short_text_rejected:
  "length text < 500 \<Longrightarrow> \<not> looks_like_cv text \<and> \<not> looks_like_job_description text"
  by (simp add: looks_like_cv_def looks_like_job_description_def)

theorem C2_short_text_rejected_witness:
  "length ''experience education skills requirements role'' < 500 \<and>
   \<not> looks_like_cv ''experience education skills requirements role'' \<and>
   \<not> looks_like_job_description ''experience education skills requirements role''"
  using C2_short_text_rejected [of "''experience education skills requirements role''"]
  by simp

lemma cue_count_card:
  assumes "distinct cues"
  shows "cue_count cues s = card {c \<in> set cues. sublist c (lower s)}"
proof -
  have "distinct (filter (\<lambda>c. sublist c (lower s)) cues)"
    using assms by simp
  then have "card (set (filter (\<lambda>c. sublist c (lower s)) cues)) =
             length (filter (\<lambda>c. sublist c (lower s)) cues)"
    by (rule distinct_card)
  then show ?thesis by (simp add: cue_count_def)
qed

lemma distinct_cv_cues: "distinct cv_cues"
  by (simp add: cv_cues_def)

lemma distinct_jd_cues: "distinct jd_cues"
  by (simp add: jd_cues_def)

text \<open>
  Claim C3. On a text of at least 500 characters the CV classifier answers true exactly
  when at least two distinct cue words of its vocabulary (experience, education, skills,
  projects, summary, work, certification) occur as substrings of the lower-cased text;
  so zero or one cue gives false and exactly two give true.
\<close>

theorem C3_cv_two_cues:
  assumes "500 \<le> length text"
  shows "looks_like_cv text =
           (2 \<le> card {c \<in> {''experience'', ''education'', ''skills'', ''projects'',
                            ''summary'', ''work'', ''certification''}.
                       sublist c (lower text)})"
proof -
  have "set cv_cues = {''experience'', ''education'', ''skills'', ''projects'',
                       ''summary'', ''work'', ''certification''}"
    by (simp add: cv_cues_def)
  then have "cue_count cv_cues text =
               card {c \<in> {''experience'', ''education'', ''skills'', ''projects'',
                           ''summary'', ''work'', ''certification''}.
                     sublist c (lower text)}"
    using cue_count_card [OF distinct_cv_cues, of "text"] by simp
  moreover have "text \<noteq> []" using assms by auto
  ultimately show ?thesis using assms by (simp add: looks_like_cv_def)
qed

theorem C3_cv_two_cues_witness:
  "500 \<le> length (''Experience and Skills'' @ replicate 490 CHR ''x'') \<and>
   looks_like_cv (''Experience and Skills'' @ replicate 490 CHR ''x'') =
     (2 \<le> card {c \<in> {''experience'', ''education'', ''skills'', ''projects'',
                      ''summary'', ''work'', ''certification''}.
                 sublist c (lower (''Experience and Skills'' @ replicate 490 CHR ''x''))})"
  using C3_cv_two_cues [of "''Experience and Skills'' @ replicate 490 CHR ''x''"] by simp

text \<open>The boundary on concrete texts of 500 characters: one cue is rejected, two are
  accepted.\<close>

lemma looks_like_cv_one_cue:
  "\<not> looks_like_cv (''Experience'' @ replicate 490 CHR ''x'')"
  by code_simp

lemma looks_like_cv_two_cues:
  "looks_like_cv (''Experience and Skills'' @ replicate 479 CHR ''x'')"
  by code_simp

text \<open>
  Claim C4. On a text of at least 500 characters the job-description classifier answers
  true exactly when at least one cue of its vocabulary (responsibilities, requirements,
  qualifications, role, "about the role", "what you'll do") occurs as a substring of the
  lower-cased text; so no cue gives false and exactly one gives true.
\<close>

theorem C4_jd_one_cue:
  assumes "500 \<le> length text"
  shows "looks_like_job_description text =
           (1 \<le> card {c \<in> {''responsibilities'', ''requirements'', ''qualifications'',
                            ''role'', ''about the role'',
                            ''what you'' @ [CHR 0x27] @ ''ll do''}.
                       sublist c (lower text)})"
proof -
  have "set jd_cues = {''responsibilities'', ''requirements'', ''qualifications'',
                       ''role'', ''about the role'', ''what you'' @ [CHR 0x27] @ ''ll do''}"
    by (simp add: jd_cues_def)
  then have "cue_count jd_cues text =
               card {c \<in> {''responsibilities'', ''requirements'', ''qualifications'',
                           ''role'', ''about the role'',
                           ''what you'' @ [CHR 0x27] @ ''ll do''}.
                     sublist c (lower text)}"
    using cue_count_card [OF distinct_jd_cues, of "text"] by simp
  moreover have "text \<noteq> []" using assms by auto
  ultimately show ?thesis using assms by (simp add: looks_like_job_description_def)
qed

theorem C4_jd_one_cue_witness:
  "500 \<le> length (''Requirements'' @ replicate 488 CHR ''x'') \<and>
   looks_like_job_description (''Requirements'' @ replicate 488 CHR ''x'') =
     (1 \<le> card {c \<in> {''responsibilities'', ''requirements'', ''qualifications'',
                      ''role'', ''about the role'',
                      ''what you'' @ [CHR 0x27] @ ''ll do''}.
                 sublist c (lower (''Requirements'' @ replicate 488 CHR ''x''))})"
  using C4_jd_one_cue [of "''Requirements'' @ replicate 488 CHR ''x''"] by simp

lemma looks_like_jd_no_cue:
  "\<not> looks_like_job_description (replicate 500 CHR ''x'')"
  by code_simp

lemma looks_like_jd_one_cue:
  "looks_like_job_description (''Requirements'' @ replicate 488 CHR ''x'')"
  by code_simp

section \<open>URL plausibility properties\<close>

lemma sublist_longer_hint:
  "sublist ''/positions/'' s \<Longrightarrow> sublist ''/positions'' s"
proof -
  assume "sublist ''/positions/'' s"
  moreover have "sublist ''/positions'' ''/positions/''"
    by code_simp
  ultimately show ?thesis
    using sublist_order.order_trans by blast
qed

lemma is_probable_job_url_iff:
  "is_probable_job_url (Some u) =
     ((prefix ''http://'' u \<or> prefix ''https://'' u) \<and>
      (\<exists>h \<in> {''/jobs'', ''/careers'', ''/job/'', ''/positions'', ''/openings''}.
         sublist h (lower u)))"
  using sublist_longer_hint [of "lower u"]
  by (auto simp add: is_probable_job_url_def scheme_match_def hints_def)

text \<open>
  Claim C5. The URL check answers true only if the string begins with the scheme
  \<open>http://\<close> or \<open>https://\<close> and its lower-cased form contains one of the path hints
  /jobs, /careers, /job/, /positions, /openings (and then it does answer true);
  https://company.com/careers/123 is accepted, https://company.com/about and
  ftp://company.com/jobs are rejected.
\<close>

theorem C5_url_plausibility:
  "(is_probable_job_url (Some u) =
     ((prefix ''http://'' u \<or> prefix ''https://'' u) \<and>
      (\<exists>h \<in> {''/jobs'', ''/careers'', ''/job/'', ''/positions'', ''/openings''}.
         sublist h (lower u)))) \<and>
   is_probable_job_url (Some ''https://company.com/careers/123'') \<and>
   \<not> is_probable_job_url (Some ''https://company.com/about'') \<and>
   \<not> is_probable_job_url (Some ''ftp://company.com/jobs'')"
proof -
  have "is_probable_job_url (Some ''https://company.com/careers/123'')"
    by code_simp
  moreover have "\<not> is_probable_job_url (Some ''https://company.com/about'')"
    by code_simp
  moreover have "\<not> is_probable_job_url (Some ''ftp://company.com/jobs'')"
    by code_simp
  ultimately show ?thesis
    using is_probable_job_url_iff [of u] by blast
qed

theorem C5_url_plausibility_witness:
  "is_probable_job_url (Some ''https://example.org/Openings?id=7'') \<and>
   prefix ''https://'' ''https://example.org/Openings?id=7'' \<and>
   (\<exists>h \<in> {''/jobs'', ''/careers'', ''/job/'', ''/positions'', ''/openings''}.
      sublist h (lower ''https://example.org/Openings?id=7''))"
proof -
  have "is_probable_job_url (Some ''https://example.org/Openings?id=7'')"
    by code_simp
  then show ?thesis
    using C5_url_plausibility [of "''https://example.org/Openings?id=7''"] by simp
qed

text \<open>
  Claim C10. The scheme test is case-sensitive and only the path-hint test works on the
  lower-cased form: HTTP://company.com/jobs is rejected although its lower-cased form is
  accepted; the empty string and \<open>None\<close> are rejected, and no exception is raised.
\<close>

theorem C10_scheme_case_sensitive:
  "\<not> is_probable_job_url (Some ''HTTP://company.com/jobs'') \<and>
   is_probable_job_url (Some (lower ''HTTP://company.com/jobs'')) \<and>
   \<not> is_probable_job_url (Some []) \<and>
   \<not> is_probable_job_url None"
  by code_simp

section \<open>Prompt assembler properties\<close>

text \<open>
  Claim C8. The prompt is one text block made of a fixed frame around the three inputs:
  a part labelled Job Posting, then the job text, a part labelled CV, then the CV text,
  a part labelled Url, then the URL. The frame does not depend on the inputs, each input
  appears as it is given, and nothing is cut: the length of the block is the sum of the
  three lengths and of the frame's 28 characters.
\<close>

theorem C8_prompt_sections:
  "\<exists>pre mid1 mid2 post.
     (\<forall>job_text cv_text url.
        build_user_prompt job_text cv_text url =
          pre @ job_text @ mid1 @ cv_text @ mid2 @ url @ post \<and>
        length (build_user_prompt job_text cv_text url) =
          length job_text + length cv_text + length url + 28) \<and>
     sublist ''Job Posting:'' pre \<and> sublist ''CV:'' mid1 \<and> sublist ''Url:'' mid2"
proof -
  let ?pre = "newline @ ''Job Posting:'' @ newline"
  let ?mid1 = "newline @ newline @ ''CV:'' @ newline"
  let ?mid2 = "newline @ newline @ ''Url:'' @ newline"
  have "\<forall>job_text cv_text url.
          build_user_prompt job_text cv_text url =
            ?pre @ job_text @ ?mid1 @ cv_text @ ?mid2 @ url @ newline \<and>
          length (build_user_prompt job_text cv_text url) =
            length job_text + length cv_text + length url + 28"
    by (simp add: build_user_prompt_def newline_def)
  moreover have "sublist ''Job Posting:'' ?pre" by blast
  moreover have "sublist ''CV:'' ?mid1"
    using sublist_appendI [of "''CV:''" "newline @ newline" newline] by simp
  moreover have "sublist ''Url:'' ?mid2"
    using sublist_appendI [of "''Url:''" "newline @ newline" newline] by simp
  ultimately show ?thesis by blast
qed

section \<open>PDF text extractor properties\<close>

lemma strip_all_space: "\<forall>x\<in>set a. is_space x \<Longrightarrow> strip a = []"
  by (auto simp add: strip_def dest: set_dropWhileD)

lemma strip_prefix_dropWhile: "prefix (strip a) (dropWhile is_space a)"
proof -
  have "suffix (dropWhile is_space (rev (dropWhile is_space a))) (rev (dropWhile is_space a))"
    by (rule suffix_dropWhile)
  then show ?thesis
    unfolding strip_def by (simp add: suffix_to_prefix)
qed

lemma strip_suffix_rev: "suffix (strip b) (rev (dropWhile is_space (rev b)))"
proof (cases "\<forall>x\<in>set b. is_space x")
  case True
  then show ?thesis by (simp add: strip_all_space)
next
  case False
  then obtain x where x: "x \<in> set (dropWhile is_space b)" "\<not> is_space x"
    by (metis dropWhile_eq_Nil_conv hd_dropWhile hd_in_set)
  have "rev b = rev (dropWhile is_space b) @ rev (takeWhile is_space b)"
    by (metis rev_append takeWhile_dropWhile_id)
  moreover have "dropWhile is_space (rev (dropWhile is_space b) @ rev (takeWhile is_space b))
      = dropWhile is_space (rev (dropWhile is_space b)) @ rev (takeWhile is_space b)"
    using x by (intro dropWhile_append1[of x]) auto
  ultimately have "rev (dropWhile is_space (rev b)) = takeWhile is_space b @ strip b"
    by (simp add: strip_def)
  then show ?thesis by (simp add: suffix_def)
qed

text \<open>Stripping a concatenation keeps the stripped form of each part.\<close>

lemma sublist_strip_left: "sublist (strip a) (strip (a @ b))"
proof (cases "\<forall>x\<in>set a. is_space x")
  case True
  then show ?thesis by (simp add: strip_all_space)
next
  case False
  then obtain x where x: "x \<in> set a" "\<not> is_space x" by blast
  have d: "dropWhile is_space (a @ b) = dropWhile is_space a @ b"
    using x by (rule dropWhile_append1)
  show ?thesis
  proof (cases "\<forall>y\<in>set b. is_space y")
    case True
    then have "dropWhile is_space (rev b @ rev (dropWhile is_space a)) =
               dropWhile is_space (rev (dropWhile is_space a))"
      by (intro dropWhile_append2) auto
    then have "strip (a @ b) = strip a" by (simp add: strip_def d)
    then show ?thesis by simp
  next
    case False
    then obtain y where y: "y \<in> set (rev b)" "\<not> is_space y" by auto
    have "dropWhile is_space (rev b @ rev (dropWhile is_space a)) =
          dropWhile is_space (rev b) @ rev (dropWhile is_space a)"
      using y by (rule dropWhile_append1)
    then have "strip (a @ b) = dropWhile is_space a @ rev (dropWhile is_space (rev b))"
      by (simp add: strip_def d)
    moreover have "sublist (strip a) (dropWhile is_space a)"
      using strip_prefix_dropWhile by blast
    ultimately show ?thesis
      by (metis sublist_append_rightI sublist_order.order_trans)
  qed
qed

lemma sublist_strip_right: "sublist (strip b) (strip (a @ b))"
proof (cases "\<forall>x\<in>set b. is_space x")
  case True
  then show ?thesis by (simp add: strip_all_space)
next
  case False
  then obtain y where y: "y \<in> set (rev b)" "\<not> is_space y" by auto
  show ?thesis
  proof (cases "\<forall>x\<in>set a. is_space x")
    case True
    then have "dropWhile is_space (a @ b) = dropWhile is_space b"
      by (intro dropWhile_append2) auto
    then have "strip (a @ b) = strip b" by (simp add: strip_def)
    then show ?thesis by simp
  next
    case False
    then obtain x where x: "x \<in> set a" "\<not> is_space x" by blast
    have d: "dropWhile is_space (a @ b) = dropWhile is_space a @ b"
      using x by (rule dropWhile_append1)
    have "dropWhile is_space (rev b @ rev (dropWhile is_space a)) =
          dropWhile is_space (rev b) @ rev (dropWhile is_space a)"
      using y by (rule dropWhile_append1)
    then have "strip (a @ b) = dropWhile is_space a @ rev (dropWhile is_space (rev b))"
      by (simp add: strip_def d)
    moreover have "sublist (strip b) (rev (dropWhile is_space (rev b)))"
      using strip_suffix_rev by blast
    ultimately show ?thesis
      by (metis sublist_append_leftI sublist_order.order_trans)
  qed
qed

lemma extract_pages_acc:
  "extract_pages ps chunks = chunks @ map page_text (filter (\<lambda>p. \<not> page_faults p) ps)"
  by (induction ps chunks rule: extract_pages.induct) simp_all

text \<open>
  Claim C1, as stated, fails: the result is not the join of one entry per page with an
  empty entry for a faulting page. On three pages whose second page faults the code
  joins the two remaining texts with one newline, where one entry per page gives two.
\<close>

theorem C1_counterexample:
  "extract_pdf_text corrupt_middle ''cv.pdf'' = Inr (''first page'' @ newline @ ''third page'') \<and>
   one_entry_per_page
     [Inr (Some ''first page''), Inl (Exn ''corrupt stream''), Inr (Some ''third page'')] =
     ''first page'' @ newline @ newline @ ''third page'' \<and>
   extract_pdf_text corrupt_middle ''cv.pdf'' \<noteq>
     Inr (one_entry_per_page
       [Inr (Some ''first page''), Inl (Exn ''corrupt stream''), Inr (Some ''third page'')])"
  by code_simp

text \<open>
  Claim C1, amended. When the document opens, a page whose extraction faults is passed
  over and contributes no entry, and the document is not aborted: the result is the
  newline-join of the texts of the pages that do not fault, in document order (the empty
  string for a page without text), stripped at both ends. On three pages where only the
  second faults, the result is the stripped join of the first and third texts and contains
  the stripped text of each.
\<close>

theorem C1_faulting_page_skipped:
  assumes "reader path = Inr pages"
  shows "extract_pdf_text reader path =
           Inr (strip (join newline (map page_text (filter (\<lambda>p. \<not> page_faults p) pages)))) \<and>
         (\<forall>t1 e t3. pages = [Inr t1, Inl e, Inr t3] \<longrightarrow>
            extract_pdf_text reader path =
              Inr (strip (page_text (Inr t1) @ newline @ page_text (Inr t3))) \<and>
            sublist (strip (page_text (Inr t1)))
              (strip (page_text (Inr t1) @ newline @ page_text (Inr t3))) \<and>
            sublist (strip (page_text (Inr t3)))
              (strip (page_text (Inr t1) @ newline @ page_text (Inr t3))))"
proof -
  have general: "extract_pdf_text reader path =
      Inr (strip (join newline (map page_text (filter (\<lambda>p. \<not> page_faults p) pages))))"
    using assms by (simp add: extract_pdf_text_def extract_pages_acc)
  have three: "extract_pdf_text reader path =
                 Inr (strip (page_text (Inr t1) @ newline @ page_text (Inr t3)))"
    if "pages = [Inr t1, Inl e, Inr t3]" for t1 e t3
    using general that by simp
  have left: "sublist (strip (page_text (Inr t1)))
                (strip (page_text (Inr t1) @ newline @ page_text (Inr t3)))" for t1 t3
    by (rule sublist_strip_left)
  have right: "sublist (strip (page_text (Inr t3)))
                 (strip (page_text (Inr t1) @ newline @ page_text (Inr t3)))" for t1 t3
    using sublist_strip_right [of "page_text (Inr t3)" "page_text (Inr t1) @ newline"]
    by simp
  show ?thesis
    using general three left right by blast
qed

theorem C1_faulting_page_skipped_witness:
  "corrupt_middle ''cv.pdf'' =
     Inr [Inr (Some ''first page''), Inl (Exn ''corrupt stream''), Inr (Some ''third page'')] \<and>
   extract_pdf_text corrupt_middle ''cv.pdf'' =
     Inr (strip (''first page'' @ newline @ ''third page'')) \<and>
   sublist ''first page'' (strip (''first page'' @ newline @ ''third page'')) \<and>
   sublist ''third page'' (strip (''first page'' @ newline @ ''third page''))"
proof -
  have opened: "corrupt_middle ''cv.pdf'' =
      Inr [Inr (Some ''first page''), Inl (Exn ''corrupt stream''), Inr (Some ''third page'')]"
    by (simp add: corrupt_middle_def)
  have "strip ''first page'' = ''first page''" "strip ''third page'' = ''third page''"
    by code_simp+
  then show ?thesis
    using opened
      C1_faulting_page_skipped [where reader = corrupt_middle and path = "''cv.pdf''", OF opened]
    by simp
qed

section \<open>HTML text extractor properties\<close>

lemma path_kept:
  "(p, s) \<in> set (strings_with_path path ns) \<Longrightarrow> set path \<subseteq> set p"
  by (induction path ns rule: strings_with_path.induct) auto

lemma hidden_below:
  assumes "t \<in> set path" and "t \<in> set names"
  shows "filter (\<lambda>(p, s). \<forall>t \<in> set p. t \<notin> set names) (strings_with_path path ns) = []"
proof -
  have "\<And>p s. (p, s) \<in> set (strings_with_path path ns) \<Longrightarrow> t \<in> set p"
    using assms(1) path_kept by blast
  then show ?thesis
    using assms(2) by (auto simp add: filter_empty_conv)
qed

lemma all_strings_decompose:
  "\<forall>t \<in> set path. t \<notin> set names \<Longrightarrow>
   all_strings (decompose_all names ns) =
     map snd (filter (\<lambda>(p, s). \<forall>t \<in> set p. t \<notin> set names) (strings_with_path path ns))"
proof (induction names ns arbitrary: path rule: decompose_all.induct)
  case (4 names t cs ns)
  show ?case
  proof (cases "t \<in> set names")
    case True
    then have "filter (\<lambda>(p, s). \<forall>t \<in> set p. t \<notin> set names)
                 (strings_with_path (path @ [t]) cs) = []"
      by (intro hidden_below [of t]) auto
    then show ?thesis
      using True 4 by simp
  next
    case False
    then have "\<forall>u \<in> set (path @ [t]). u \<notin> set names"
      using 4(4) by auto
    then have "all_strings (decompose_all names cs) =
                 map snd (filter (\<lambda>(p, s). \<forall>t \<in> set p. t \<notin> set names)
                   (strings_with_path (path @ [t]) cs))"
      using 4(2) [OF False] by blast
    then show ?thesis
      using False 4(3) [OF False 4(4)] by simp
  qed
qed simp_all

lemma all_strings_visible:
  "all_strings (decompose_all names ns) = visible_strings names ns"
  using all_strings_decompose [of "[]" names ns] by (simp add: visible_strings_def)

lemma tag_names_decompose:
  "set (tag_names (decompose_all names ns)) \<inter> set names = {}"
  by (induction names ns rule: decompose_all.induct) auto

text \<open>
  Claim C9. When the fetched page has a body, the body text is taken from what is left
  of the body once every script, style, img, input, nav, footer, header, noscript, svg,
  button and form element is removed: no such element is left in the tree the text is
  read from, and the text is the newline-join of the stripped visible strings of the body
  (those enclosed by no such element; a string that is empty once stripped is no
  fragment). For a body with a nav block "Home About" and a content block "Job
  Description Here" the text contains the latter and not the former.
\<close>

theorem C9_body_text:
  assumes "get url = Inr soup" and "find_tag ''body'' soup = Some (Elem t cs)"
  shows "(\<exists>title rest.
            fetch_job_text get url = Inr (title, get_text rest) \<and>
            set (tag_names rest) \<inter>
              {''script'', ''style'', ''img'', ''input'', ''nav'', ''footer'', ''header'',
               ''noscript'', ''svg'', ''button'', ''form''} = {} \<and>
            get_text rest =
              join newline (filter (\<lambda>s. s \<noteq> []) (map strip
                (visible_strings
                   [''script'', ''style'', ''img'', ''input'', ''nav'', ''footer'', ''header'',
                    ''noscript'', ''svg'', ''button'', ''form''] cs)))) \<and>
         (\<exists>title body_text.
            fetch_job_text nav_site url = Inr (title, body_text) \<and>
            sublist ''Job Description Here'' body_text \<and>
            \<not> sublist ''Home About'' body_text)"
proof -
  have names: "set irrelevant =
      {''script'', ''style'', ''img'', ''input'', ''nav'', ''footer'', ''header'',
       ''noscript'', ''svg'', ''button'', ''form''}"
    by (simp add: irrelevant_def)
  have "\<exists>title. fetch_job_text get url = Inr (title, get_text (decompose_all irrelevant cs))"
    using assms by (simp add: fetch_job_text_def Let_def)
  moreover have "set (tag_names (decompose_all irrelevant cs)) \<inter>
      {''script'', ''style'', ''img'', ''input'', ''nav'', ''footer'', ''header'',
       ''noscript'', ''svg'', ''button'', ''form''} = {}"
    using tag_names_decompose [of irrelevant cs] names by simp
  moreover have "get_text (decompose_all irrelevant cs) =
      join newline (filter (\<lambda>s. s \<noteq> []) (map strip
        (visible_strings
           [''script'', ''style'', ''img'', ''input'', ''nav'', ''footer'', ''header'',
            ''noscript'', ''svg'', ''button'', ''form''] cs)))"
    by (simp add: get_text_def all_strings_visible irrelevant_def)
  moreover have "fetch_job_text nav_site url = Inr (''Careers'', ''Job Description Here'')"
    by code_simp
  moreover have "sublist ''Job Description Here'' ''Job Description Here''"
    by simp
  moreover have "\<not> sublist ''Home About'' ''Job Description Here''"
    by code_simp
  ultimately show ?thesis by blast
qed

theorem C9_body_text_witness:
  "nav_site ''https://company.com/careers/123'' = Inr nav_page \<and>
   find_tag ''body'' nav_page =
     Some (Elem ''body'' [Elem ''nav'' [Text ''Home About''],
                          Elem ''div'' [Text ''Job Description Here'']]) \<and>
   (\<exists>title rest.
      fetch_job_text nav_site ''https://company.com/careers/123'' =
        Inr (title, get_text rest) \<and>
      set (tag_names rest) \<inter>
        {''script'', ''style'', ''img'', ''input'', ''nav'', ''footer'', ''header'',
         ''noscript'', ''svg'', ''button'', ''form''} = {})"
proof -
  have page: "nav_site ''https://company.com/careers/123'' = Inr nav_page"
    by (simp add: nav_site_def)
  have body: "find_tag ''body'' nav_page =
      Some (Elem ''body'' [Elem ''nav'' [Text ''Home About''],
                           Elem ''div'' [Text ''Job Description Here'']])"
    by code_simp
  show ?thesis
    using page body
      C9_body_text [where get = nav_site and url = "''https://company.com/careers/123''",
        OF page body]
    by blast
qed

section \<open>Properties of a run\<close>

text \<open>The example services, evaluated once.\<close>

lemma fetch_jd_site: "fetch_job_text jd_site u = Inr (no_title, good_jd)"
  by code_simp

lemma fetch_site_down: "fetch_job_text site_down u = Inl (Exn ''404 Client Error'')"
  by (simp add: fetch_job_text_def site_down_def)

lemma extract_short_cv: "extract_pdf_text short_cv_file p = Inr short_cv"
  by code_simp

lemma extract_good_cv: "extract_pdf_text good_cv_file p = Inr good_cv"
  by code_simp

lemma extract_broken_pdf: "extract_pdf_text broken_pdf p = Inl (Exn ''EOF marker not found'')"
  by (simp add: extract_pdf_text_def broken_pdf_def)

lemma good_jd_accepted: "length good_jd = 500 \<and> looks_like_job_description good_jd"
  by code_simp

lemma good_cv_accepted: "length good_cv = 500 \<and> looks_like_cv good_cv"
  by code_simp

lemma short_cv_rejected: "length short_cv = 50 \<and> \<not> looks_like_cv short_cv"
  by code_simp

lemma careers_url_probable: "is_probable_job_url (Some ''https://company.com/careers/123'')"
  by code_simp

text \<open>
  Claim C6. In every run that reaches the heuristic validation (the credential is set,
  the CV path exists, the fetch and the extraction have returned), if the job text fails
  the job-description classifier or the CV text fails the CV classifier, the run prints
  the fixed guidance message on standard output (after the URL notice, if that was due),
  prints nothing on standard error, exits with status 0, and has made the fetch and the
  PDF read but no chat-completion call. So it is for a CV of 50 characters together
  with an accepted job description.
\<close>

theorem C6_rejection_short_circuits:
  assumes "OPENAI_API_KEY w = Some k" and "k \<noteq> []"
    and "path_exists w (cv a)"
    and "fetch_job_text (http_get w) (job_url a) = Inr (job_title, job_text)"
    and "extract_pdf_text (pdf_open w) (cv a) = Inr cv_text"
    and "\<not> looks_like_job_description job_text \<or> \<not> looks_like_cv cv_text"
  shows "exit_code (main w a) = 0 \<and>
         stdout (main w a) =
           (if is_probable_job_url (Some (job_url a)) then [] else [notice]) @ [generic] \<and>
         stderr (main w a) = [] \<and>
         calls (main w a) = [Fetch (job_url a), ReadPdf (cv a)] \<and>
         (\<forall>m messages. Chat m messages \<notin> set (calls (main w a)))"
  using assms by (auto simp add: main_def Let_def)

theorem C6_rejection_short_circuits_witness:
  "length short_cv = 50 \<and> looks_like_job_description good_jd \<and>
   fetch_job_text (http_get (good_world\<lparr>pdf_open := short_cv_file\<rparr>)) (job_url some_args) =
     Inr (no_title, good_jd) \<and>
   extract_pdf_text (pdf_open (good_world\<lparr>pdf_open := short_cv_file\<rparr>)) (cv some_args) =
     Inr short_cv \<and>
   exit_code (main (good_world\<lparr>pdf_open := short_cv_file\<rparr>) some_args) = 0 \<and>
   stdout (main (good_world\<lparr>pdf_open := short_cv_file\<rparr>) some_args) = [generic] \<and>
   (\<forall>m messages.
      Chat m messages \<notin> set (calls (main (good_world\<lparr>pdf_open := short_cv_file\<rparr>) some_args)))"
proof -
  let ?w = "good_world\<lparr>pdf_open := short_cv_file\<rparr>"
  have key: "OPENAI_API_KEY ?w = Some ''sk-test''" "''sk-test'' \<noteq> []"
    by (simp_all add: good_world_def)
  have present: "path_exists ?w (cv some_args)"
    by (simp add: good_world_def every_path_def)
  have job: "fetch_job_text (http_get ?w) (job_url some_args) = Inr (no_title, good_jd)"
    by (simp add: good_world_def fetch_jd_site)
  have doc: "extract_pdf_text (pdf_open ?w) (cv some_args) = Inr short_cv"
    by (simp add: extract_short_cv)
  have rejected: "\<not> looks_like_job_description good_jd \<or> \<not> looks_like_cv short_cv"
    using short_cv_rejected by simp
  have url: "is_probable_job_url (Some (job_url some_args))"
    by (simp add: some_args_def careers_url_probable)
  show ?thesis
    using C6_rejection_short_circuits [OF key present job doc rejected]
      job doc url short_cv_rejected good_jd_accepted
    by simp
qed

text \<open>
  Claim C7. The exit status of a run: 2 when the credential is missing (unset or empty)
  or the CV path does not exist; otherwise 1 when the fetch of the job posting raises;
  otherwise 1 when the PDF extraction raises for the whole document; otherwise 0 when a
  classifier rejects; otherwise 1 when the chat-completion call raises, and 0 when it
  returns.
\<close>

theorem C7_exit_codes:
  "(OPENAI_API_KEY w = None \<or> OPENAI_API_KEY w = Some [] \<or> \<not> path_exists w (cv a)
      \<longrightarrow> exit_code (main w a) = 2) \<and>
   (OPENAI_API_KEY w \<noteq> None \<and> OPENAI_API_KEY w \<noteq> Some [] \<and> path_exists w (cv a) \<longrightarrow>
      (\<forall>e. fetch_job_text (http_get w) (job_url a) = Inl e \<longrightarrow> exit_code (main w a) = 1) \<and>
      (\<forall>job_title job_text.
         fetch_job_text (http_get w) (job_url a) = Inr (job_title, job_text) \<longrightarrow>
         (\<forall>e. extract_pdf_text (pdf_open w) (cv a) = Inl e \<longrightarrow> exit_code (main w a) = 1) \<and>
         (\<forall>cv_text.
            extract_pdf_text (pdf_open w) (cv a) = Inr cv_text \<longrightarrow>
            (\<not> looks_like_job_description job_text \<or> \<not> looks_like_cv cv_text \<longrightarrow>
               exit_code (main w a) = 0) \<and>
            (looks_like_job_description job_text \<and> looks_like_cv cv_text \<longrightarrow>
               (\<forall>e. chat_create w (model a)
                       [(''system'', SYSTEM_PROMPT),
                        (''user'', build_user_prompt job_text cv_text (job_url a))] = Inl e
                     \<longrightarrow> exit_code (main w a) = 1) \<and>
               (\<forall>content.
                  chat_create w (model a)
                    [(''system'', SYSTEM_PROMPT),
                     (''user'', build_user_prompt job_text cv_text (job_url a))] = Inr content
                  \<longrightarrow> exit_code (main w a) = 0)))))"
  by (auto simp add: main_def Let_def split: exn.splits)

theorem C7_exit_codes_witness:
  "exit_code (main (good_world\<lparr>OPENAI_API_KEY := None\<rparr>) some_args) = 2 \<and>
   exit_code (main (good_world\<lparr>path_exists := no_path\<rparr>) some_args) = 2 \<and>
   exit_code (main (good_world\<lparr>http_get := site_down\<rparr>) some_args) = 1 \<and>
   exit_code (main (good_world\<lparr>pdf_open := broken_pdf\<rparr>) some_args) = 1 \<and>
   exit_code (main (good_world\<lparr>pdf_open := short_cv_file\<rparr>) some_args) = 0 \<and>
   exit_code (main (good_world\<lparr>chat_create := chat_fails\<rparr>) some_args) = 1 \<and>
   exit_code (main good_world some_args) = 0"
proof -
  have no_key: "exit_code (main (good_world\<lparr>OPENAI_API_KEY := None\<rparr>) some_args) = 2"
    using C7_exit_codes [of "good_world\<lparr>OPENAI_API_KEY := None\<rparr>" some_args]
    by simp
  have no_file: "exit_code (main (good_world\<lparr>path_exists := no_path\<rparr>) some_args) = 2"
    using C7_exit_codes [of "good_world\<lparr>path_exists := no_path\<rparr>" some_args]
    by (simp add: no_path_def)
  have no_site: "exit_code (main (good_world\<lparr>http_get := site_down\<rparr>) some_args) = 1"
    using C7_exit_codes [of "good_world\<lparr>http_get := site_down\<rparr>" some_args]
    by (simp add: good_world_def every_path_def fetch_site_down)
  have no_pdf: "exit_code (main (good_world\<lparr>pdf_open := broken_pdf\<rparr>) some_args) = 1"
    using C7_exit_codes [of "good_world\<lparr>pdf_open := broken_pdf\<rparr>" some_args]
    by (simp add: good_world_def every_path_def fetch_jd_site extract_broken_pdf)
  have rejected: "exit_code (main (good_world\<lparr>pdf_open := short_cv_file\<rparr>) some_args) = 0"
    using C7_exit_codes [of "good_world\<lparr>pdf_open := short_cv_file\<rparr>" some_args]
      short_cv_rejected
    by (simp add: good_world_def every_path_def fetch_jd_site extract_short_cv)
  have no_chat: "exit_code (main (good_world\<lparr>chat_create := chat_fails\<rparr>) some_args) = 1"
    using C7_exit_codes [of "good_world\<lparr>chat_create := chat_fails\<rparr>" some_args]
      good_jd_accepted good_cv_accepted
    by (simp add: good_world_def every_path_def fetch_jd_site extract_good_cv chat_fails_def)
  have success: "exit_code (main good_world some_args) = 0"
    using C7_exit_codes [of good_world some_args] good_jd_accepted good_cv_accepted
    by (simp add: good_world_def every_path_def fetch_jd_site extract_good_cv
        chat_answers_def)
  show ?thesis
    using no_key no_file no_site no_pdf rejected no_chat success by simp
qed

end
